theory Spec2Isabelle
  imports Complex_Main
begin

section \<open>Numbers, colours and pixels\<close>

text \<open>
  The editor computes with JavaScript numbers. A finite number is modelled as an exact
  rational; \<open>None\<close> stands for a non-finite number (\<open>NaN\<close>, \<open>Infinity\<close> or
  \<open>-Infinity\<close>), which is what a division by zero gives. The rounding of doubles and the
  8-bit quantisation of canvas bitmaps are not modelled: channels are exact rationals
  in \<open>[0,1]\<close>.
\<close>

type_synonym num = "rat option"

definition num_div :: "rat \<Rightarrow> rat \<Rightarrow> num" where
  "num_div a b = (if b = 0 then None else Some (a / b))"

definition num_mul :: "rat \<Rightarrow> num \<Rightarrow> num" where
  "num_mul a k = (case k of None \<Rightarrow> None | Some k' \<Rightarrow> Some (a * k'))"

text \<open>A CSS colour: red, green, blue and alpha, each in \<open>[0,1]\<close>, not premultiplied.\<close>

record colour =
  c_red :: rat
  c_green :: rat
  c_blue :: rat
  c_alpha :: rat

text \<open>\<^verbatim>\<open>'rgba(255, 255, 255, 0.7)'\<close>, \<^verbatim>\<open>'#000000'\<close> and \<^verbatim>\<open>'#FFFFFF'\<close> (also \<^verbatim>\<open>'white'\<close>).\<close>

definition rgba_255_255_255_07 :: colour where
  "rgba_255_255_255_07 = \<lparr>c_red = 1, c_green = 1, c_blue = 1, c_alpha = 7 / 10\<rparr>"

definition hex_000000 :: colour where
  "hex_000000 = \<lparr>c_red = 0, c_green = 0, c_blue = 0, c_alpha = 1\<rparr>"

definition hex_FFFFFF :: colour where
  "hex_FFFFFF = \<lparr>c_red = 1, c_green = 1, c_blue = 1, c_alpha = 1\<rparr>"

text \<open>A bitmap pixel, with colour channels premultiplied by alpha as a canvas holds them.\<close>

record pixel =
  p_red :: rat
  p_green :: rat
  p_blue :: rat
  p_alpha :: rat

definition transparent :: pixel where
  "transparent = \<lparr>p_red = 0, p_green = 0, p_blue = 0, p_alpha = 0\<rparr>"

definition opaque_white :: pixel where
  "opaque_white = \<lparr>p_red = 1, p_green = 1, p_blue = 1, p_alpha = 1\<rparr>"

definition opaque_black :: pixel where
  "opaque_black = \<lparr>p_red = 0, p_green = 0, p_blue = 0, p_alpha = 1\<rparr>"

text \<open>The source pixel of a fill or stroke: the style colour at coverage \<open>k\<close>.\<close>

definition source_pixel :: "colour \<Rightarrow> rat \<Rightarrow> pixel" where
  "source_pixel c k =
     \<lparr>p_red = c_red c * (c_alpha c * k), p_green = c_green c * (c_alpha c * k),
      p_blue = c_blue c * (c_alpha c * k), p_alpha = c_alpha c * k\<rparr>"

text \<open>
  The Porter-Duff operators the source selects through \<^verbatim>\<open>globalCompositeOperation\<close>:
  \<^verbatim>\<open>'source-over'\<close> (the default), \<^verbatim>\<open>'destination-out'\<close> and \<^verbatim>\<open>'source-atop'\<close>,
  on premultiplied pixels.
\<close>

datatype compositeOp = SourceOver | DestinationOut | SourceAtop

fun composite :: "compositeOp \<Rightarrow> pixel \<Rightarrow> pixel \<Rightarrow> pixel" where
  "composite SourceOver s d =
     \<lparr>p_red = p_red s + p_red d * (1 - p_alpha s),
      p_green = p_green s + p_green d * (1 - p_alpha s),
      p_blue = p_blue s + p_blue d * (1 - p_alpha s),
      p_alpha = p_alpha s + p_alpha d * (1 - p_alpha s)\<rparr>"
| "composite DestinationOut s d =
     \<lparr>p_red = p_red d * (1 - p_alpha s),
      p_green = p_green d * (1 - p_alpha s),
      p_blue = p_blue d * (1 - p_alpha s),
      p_alpha = p_alpha d * (1 - p_alpha s)\<rparr>"
| "composite SourceAtop s d =
     \<lparr>p_red = p_red s * p_alpha d + p_red d * (1 - p_alpha s),
      p_green = p_green s * p_alpha d + p_green d * (1 - p_alpha s),
      p_blue = p_blue s * p_alpha d + p_blue d * (1 - p_alpha s),
      p_alpha = p_alpha s * p_alpha d + p_alpha d * (1 - p_alpha s)\<rparr>"

section \<open>The canvas element and its 2D context\<close>

text \<open>What a call into the browser, and so an event handler, can throw.\<close>

datatype exception = TypeError | IndexSizeError | InvalidStateError

datatype lineCap = ButtCap | RoundCap | SquareCap

datatype lineJoin = MiterJoin | RoundJoin | BevelJoin

text \<open>
  A canvas element with the state of its 2D context. \<open>bitmap c x y\<close> is the pixel in
  column \<open>x\<close> and row \<open>y\<close>; only \<open>x < width c\<close> and \<open>y < height c\<close> are part of the image.
  \<open>hasContext2d\<close> tells whether \<^verbatim>\<open>getContext('2d')\<close> returns a context or \<^verbatim>\<open>null\<close>.
\<close>

record canvas =
  width :: nat
  height :: nat
  bitmap :: "nat \<Rightarrow> nat \<Rightarrow> pixel"
  hasContext2d :: bool
  globalCompositeOperation :: compositeOp
  strokeStyle :: colour
  fillStyle :: colour
  lineWidth :: rat
  lineCap :: lineCap
  lineJoin :: lineJoin

text \<open>What a path covers: the circle of \<^verbatim>\<open>arc\<close> and the stroked segment of
  \<^verbatim>\<open>moveTo\<close>/\<^verbatim>\<open>lineTo\<close>.\<close>

datatype shape =
  Disc rat rat rat
  | Segment rat rat rat rat rat lineCap lineJoin

text \<open>A decoded image.\<close>

record image =
  naturalWidth :: nat
  naturalHeight :: nat
  imagePixels :: "nat \<Rightarrow> nat \<Rightarrow> pixel"

text \<open>
  The browser facilities the code calls and does not define: the rasteriser (the share of
  pixel \<open>(x, y)\<close> that a shape covers), the PNG and base64 encoder behind
  \<^verbatim>\<open>toDataURL\<close>, the image decoder, whether a canvas made by
  \<^verbatim>\<open>document.createElement\<close> yields a 2D context, and the \<^verbatim>\<open>message\<close> of each
  exception (a \<^verbatim>\<open>DOMException\<close> and a \<^verbatim>\<open>TypeError\<close> are instances of \<^verbatim>\<open>Error\<close>).
\<close>

record platform =
  coverage :: "shape \<Rightarrow> nat \<Rightarrow> nat \<Rightarrow> rat"
  encodePNG :: "nat \<Rightarrow> nat \<Rightarrow> (nat \<Rightarrow> nat \<Rightarrow> pixel) \<Rightarrow> string"
  decodeImage :: "nat list \<Rightarrow> image option"
  newContext2d :: bool
  errorMessage :: "exception \<Rightarrow> string"

text \<open>\<^verbatim>\<open>document.createElement('canvas')\<close>: 300 by 150, transparent, default context state.\<close>

definition createElement_canvas :: "platform \<Rightarrow> canvas" where
  "createElement_canvas P =
     \<lparr>width = 300, height = 150, bitmap = (\<lambda>x y. transparent),
      hasContext2d = newContext2d P, globalCompositeOperation = SourceOver,
      strokeStyle = hex_000000, fillStyle = hex_000000, lineWidth = 1,
      lineCap = ButtCap, lineJoin = MiterJoin\<rparr>"

text \<open>Assigning \<^verbatim>\<open>width\<close> or \<^verbatim>\<open>height\<close> clears the bitmap and resets the context state.\<close>

definition set_width :: "nat \<Rightarrow> canvas \<Rightarrow> canvas" where
  "set_width w c =
     \<lparr>width = w, height = height c, bitmap = (\<lambda>x y. transparent),
      hasContext2d = hasContext2d c, globalCompositeOperation = SourceOver,
      strokeStyle = hex_000000, fillStyle = hex_000000, lineWidth = 1,
      lineCap = ButtCap, lineJoin = MiterJoin\<rparr>"

definition set_height :: "nat \<Rightarrow> canvas \<Rightarrow> canvas" where
  "set_height h c =
     \<lparr>width = width c, height = h, bitmap = (\<lambda>x y. transparent),
      hasContext2d = hasContext2d c, globalCompositeOperation = SourceOver,
      strokeStyle = hex_000000, fillStyle = hex_000000, lineWidth = 1,
      lineCap = ButtCap, lineJoin = MiterJoin\<rparr>"

text \<open>The \<^verbatim>\<open>lineWidth\<close> setter ignores zero, negative and non-finite values.\<close>

definition set_lineWidth :: "num \<Rightarrow> canvas \<Rightarrow> canvas" where
  "set_lineWidth v c =
     (case v of None \<Rightarrow> c | Some w \<Rightarrow> if 0 < w then c\<lparr>lineWidth := w\<rparr> else c)"

text \<open>\<^verbatim>\<open>fill()\<close> and \<^verbatim>\<open>stroke()\<close> of a path: the style colour, weighted by the
  coverage of each pixel, composited into the bitmap.\<close>

definition paint :: "platform \<Rightarrow> shape \<Rightarrow> colour \<Rightarrow> canvas \<Rightarrow> canvas" where
  "paint P sh col c =
     c\<lparr>bitmap := (\<lambda>x y.
          if x < width c \<and> y < height c
          then composite (globalCompositeOperation c)
                 (source_pixel col (coverage P sh x y)) (bitmap c x y)
          else bitmap c x y)\<rparr>"

text \<open>\<^verbatim>\<open>fillRect(0, 0, w, h)\<close>: the rectangle lies on the pixel grid.\<close>

definition fillRect :: "nat \<Rightarrow> nat \<Rightarrow> canvas \<Rightarrow> canvas" where
  "fillRect w h c =
     c\<lparr>bitmap := (\<lambda>x y.
          if x < w \<and> y < h \<and> x < width c \<and> y < height c
          then composite (globalCompositeOperation c)
                 (source_pixel (fillStyle c) 1) (bitmap c x y)
          else bitmap c x y)\<rparr>"

text \<open>\<^verbatim>\<open>clearRect(0, 0, w, h)\<close>.\<close>

definition clearRect :: "nat \<Rightarrow> nat \<Rightarrow> canvas \<Rightarrow> canvas" where
  "clearRect w h c =
     c\<lparr>bitmap := (\<lambda>x y.
          if x < w \<and> y < h \<and> x < width c \<and> y < height c
          then transparent else bitmap c x y)\<rparr>"

text \<open>
  \<^verbatim>\<open>drawImage(src, 0, 0)\<close> on the context of \<open>c\<close>. A source canvas of zero width or
  height makes the call throw; a source image of zero width or height draws nothing.
\<close>

definition drawImage :: "canvas \<Rightarrow> canvas \<Rightarrow> exception + canvas" where
  "drawImage src c =
     (if width src = 0 \<or> height src = 0 then Inl InvalidStateError
      else Inr (c\<lparr>bitmap := (\<lambda>x y.
          if x < width src \<and> y < height src \<and> x < width c \<and> y < height c
          then composite (globalCompositeOperation c) (bitmap src x y) (bitmap c x y)
          else bitmap c x y)\<rparr>))"

definition drawImage_image :: "image \<Rightarrow> canvas \<Rightarrow> canvas" where
  "drawImage_image img c =
     c\<lparr>bitmap := (\<lambda>x y.
          if x < naturalWidth img \<and> y < naturalHeight img \<and> x < width c \<and> y < height c
          then composite (globalCompositeOperation c) (imagePixels img x y) (bitmap c x y)
          else bitmap c x y)\<rparr>"

text \<open>\<^verbatim>\<open>toDataURL('image/png')\<close>: a canvas without pixels gives \<^verbatim>\<open>'data:,'\<close>.\<close>

definition toDataURL :: "platform \<Rightarrow> canvas \<Rightarrow> string" where
  "toDataURL P c =
     (if width c = 0 \<or> height c = 0 then ''data:,''
      else ''data:image/png;base64,'' @ encodePNG P (width c) (height c) (bitmap c))"

section \<open>ImageEditor\<close>

text \<open>
  The component's refs and state. \<open>brushSize\<close> is a number (\<^verbatim>\<open>parseInt\<close> may give
  \<^verbatim>\<open>NaN\<close>); \<open>lastPointRef\<close> is \<^verbatim>\<open>null\<close> or a point whose coordinates are numbers.
\<close>

record editor =
  imageCanvasRef :: "canvas option"
  drawingCanvasRef :: "canvas option"
  imageRef :: "image option"
  isDrawing :: bool
  lastPointRef :: "(num \<times> num) option"
  brushSize :: num

text \<open>
  Lines 113 to 145 of \<^verbatim>\<open>getMaskAsBase64\<close>: the mask canvas that is built, or the
  exception that \<^verbatim>\<open>drawImage\<close> throws, and the drawing canvas as the function leaves
  it. An exception at line 139 would skip the three assignments that restore the
  context of the drawing canvas.
\<close>

definition renderMask :: "platform \<Rightarrow> canvas \<Rightarrow> (exception + canvas) \<times> canvas" where
  "renderMask P drawingCanvas =
     (let maskCanvas = createElement_canvas P;
          maskCanvas = set_width (width drawingCanvas) maskCanvas;
          maskCanvas = set_height (height drawingCanvas) maskCanvas
      in if hasContext2d maskCanvas then
           let maskCanvas = maskCanvas\<lparr>fillStyle := hex_000000\<rparr>;
               maskCanvas = fillRect (width maskCanvas) (height maskCanvas) maskCanvas;
               maskCanvas = maskCanvas\<lparr>globalCompositeOperation := DestinationOut\<rparr>
           in case drawImage drawingCanvas maskCanvas of
                Inl ex \<Rightarrow> (Inl ex, drawingCanvas)
              | Inr maskCanvas \<Rightarrow>
                  (let maskCanvas = maskCanvas\<lparr>globalCompositeOperation := SourceOver\<rparr>;
                       maskCanvas = maskCanvas\<lparr>strokeStyle := hex_FFFFFF\<rparr>;
                       maskCanvas = maskCanvas\<lparr>fillStyle := hex_FFFFFF\<rparr>
                   in if hasContext2d drawingCanvas then
                        let originalCompositeOp = globalCompositeOperation drawingCanvas;
                            originalStroke = strokeStyle drawingCanvas;
                            originalFill = fillStyle drawingCanvas;
                            drawingCanvas =
                              drawingCanvas\<lparr>globalCompositeOperation := SourceAtop\<rparr>;
                            drawingCanvas = drawingCanvas\<lparr>strokeStyle := hex_FFFFFF\<rparr>;
                            drawingCanvas = drawingCanvas\<lparr>fillStyle := hex_FFFFFF\<rparr>
                        in case drawImage drawingCanvas maskCanvas of
                             Inl ex \<Rightarrow> (Inl ex, drawingCanvas)
                           | Inr maskCanvas \<Rightarrow>
                               (let drawingCanvas =
                                      drawingCanvas
                                        \<lparr>globalCompositeOperation := originalCompositeOp\<rparr>;
                                    drawingCanvas =
                                      drawingCanvas\<lparr>strokeStyle := originalStroke\<rparr>;
                                    drawingCanvas =
                                      drawingCanvas\<lparr>fillStyle := originalFill\<rparr>
                                in (Inr maskCanvas, drawingCanvas))
                      else (Inr maskCanvas, drawingCanvas))
         else (Inr maskCanvas, drawingCanvas))"

text \<open>
  \<^verbatim>\<open>getMaskAsBase64\<close>: the data URL it returns, or the exception it ends with, and the
  state of the editor it leaves.
\<close>

definition getMaskAsBase64 :: "platform \<Rightarrow> editor \<Rightarrow> (exception + string) \<times> editor" where
  "getMaskAsBase64 P s =
     (case drawingCanvasRef s of
        None \<Rightarrow> (Inr '''', s)
      | Some drawingCanvas \<Rightarrow>
          (let (result, drawingCanvas') = renderMask P drawingCanvas;
               s = s\<lparr>drawingCanvasRef := Some drawingCanvas'\<rparr>
           in case result of
                Inl ex \<Rightarrow> (Inl ex, s)
              | Inr maskCanvas \<Rightarrow> (Inr (toDataURL P maskCanvas), s)))"

text \<open>
  A pointer event as \<^verbatim>\<open>drawOnCanvas\<close> reads it: \<^verbatim>\<open>offsetX\<close> and \<^verbatim>\<open>offsetY\<close> of a
  mouse event, or \<^verbatim>\<open>clientX\<close> and \<^verbatim>\<open>clientY\<close> of each entry of \<^verbatim>\<open>touches\<close>; and the
  rectangle that \<^verbatim>\<open>getBoundingClientRect\<close> returns at the time of the event.
\<close>

datatype pointerEvent =
  MouseEvent rat rat
  | TouchEvent "(rat \<times> rat) list"

record domRect =
  rect_left :: rat
  rect_top :: rat
  rect_width :: rat
  rect_height :: rat

text \<open>Lines 31 to 38: reading \<^verbatim>\<open>touches[0]\<close> of an empty list throws.\<close>

definition currentPoint ::
  "domRect \<Rightarrow> num \<Rightarrow> num \<Rightarrow> pointerEvent \<Rightarrow> exception + (num \<times> num)" where
  "currentPoint rect scaleX scaleY e =
     (case e of
        TouchEvent touches \<Rightarrow>
          (case touches of
             [] \<Rightarrow> Inl TypeError
           | t # _ \<Rightarrow> Inr (num_mul (fst t - rect_left rect) scaleX,
                           num_mul (snd t - rect_top rect) scaleY))
      | MouseEvent offsetX offsetY \<Rightarrow>
          Inr (num_mul offsetX scaleX, num_mul offsetY scaleY))"

text \<open>
  Lines 50 to 53: \<^verbatim>\<open>moveTo\<close> and \<^verbatim>\<open>lineTo\<close> ignore non-finite coordinates, and a
  path left with fewer than two points strokes nothing.
\<close>

definition strokeLine :: "platform \<Rightarrow> num \<Rightarrow> num \<Rightarrow> num \<Rightarrow> num \<Rightarrow> canvas \<Rightarrow> canvas" where
  "strokeLine P x0 y0 x1 y1 ctx =
     (case (x0, y0, x1, y1) of
        (Some a, Some b, Some c, Some d) \<Rightarrow>
          paint P (Segment a b c d (lineWidth ctx) (lineCap ctx) (lineJoin ctx))
            (strokeStyle ctx) ctx
      | _ \<Rightarrow> ctx)"

text \<open>
  Lines 56 to 58: \<^verbatim>\<open>arc\<close> ignores non-finite arguments and throws on a negative
  radius; \<^verbatim>\<open>fill\<close> then fills the circle, or nothing.
\<close>

definition fillArc :: "platform \<Rightarrow> num \<Rightarrow> num \<Rightarrow> num \<Rightarrow> canvas \<Rightarrow> exception + canvas" where
  "fillArc P x y r ctx =
     (case (x, y, r) of
        (Some cx, Some cy, Some radius) \<Rightarrow>
          if radius < 0 then Inl IndexSizeError
          else Inr (paint P (Disc cx cy radius) (fillStyle ctx) ctx)
      | _ \<Rightarrow> Inr ctx)"

text \<open>
  An event handler returns the exception it ended with, if any, and the state it leaves:
  what it wrote before throwing stays written.
\<close>

definition drawOnCanvas ::
  "platform \<Rightarrow> domRect \<Rightarrow> pointerEvent \<Rightarrow> editor \<Rightarrow> exception option \<times> editor" where
  "drawOnCanvas P rect e s =
     (case drawingCanvasRef s of
        None \<Rightarrow> (None, s)
      | Some canvas \<Rightarrow>
          (let scaleX = num_div (of_nat (width canvas)) (rect_width rect);
               scaleY = num_div (of_nat (height canvas)) (rect_height rect)
           in case currentPoint rect scaleX scaleY e of
                Inl ex \<Rightarrow> (Some ex, s)
              | Inr (currentX, currentY) \<Rightarrow>
                  if \<not> hasContext2d canvas then (None, s)
                  else
                    (let ctx = canvas\<lparr>strokeStyle := rgba_255_255_255_07\<rparr>;
                         ctx = ctx\<lparr>fillStyle := rgba_255_255_255_07\<rparr>;
                         ctx = set_lineWidth (brushSize s) ctx;
                         ctx = ctx\<lparr>lineCap := RoundCap\<rparr>;
                         ctx = ctx\<lparr>lineJoin := RoundJoin\<rparr>;
                         ctx = (case lastPointRef s of
                                  Some (lastX, lastY) \<Rightarrow>
                                    strokeLine P lastX lastY currentX currentY ctx
                                | None \<Rightarrow> ctx)
                     in case fillArc P currentX currentY
                               (map_option (\<lambda>b. b / 2) (brushSize s)) ctx of
                          Inl ex \<Rightarrow> (Some ex, s\<lparr>drawingCanvasRef := Some ctx\<rparr>)
                        | Inr ctx' \<Rightarrow>
                            (None, s\<lparr>drawingCanvasRef := Some ctx',
                                     lastPointRef := Some (currentX, currentY)\<rparr>))))"

definition startDrawing ::
  "platform \<Rightarrow> domRect \<Rightarrow> pointerEvent \<Rightarrow> editor \<Rightarrow> exception option \<times> editor" where
  "startDrawing P rect e s =
     drawOnCanvas P rect e (s\<lparr>isDrawing := True, lastPointRef := None\<rparr>)"

definition stopDrawing :: "editor \<Rightarrow> editor" where
  "stopDrawing s = s\<lparr>isDrawing := False, lastPointRef := None\<rparr>"

definition handleDrawing ::
  "platform \<Rightarrow> domRect \<Rightarrow> pointerEvent \<Rightarrow> editor \<Rightarrow> exception option \<times> editor" where
  "handleDrawing P rect e s =
     (if \<not> isDrawing s then (None, s) else drawOnCanvas P rect e s)"

text \<open>The \<^verbatim>\<open>onload\<close> handler of the effect (lines 82 to 95).\<close>

definition image_onload :: "image \<Rightarrow> editor \<Rightarrow> editor" where
  "image_onload img s =
     (let resize = map_option
            (\<lambda>canvas. set_height (naturalHeight img) (set_width (naturalWidth img) canvas));
          s = s\<lparr>imageRef := Some img\<rparr>;
          s = s\<lparr>imageCanvasRef := resize (imageCanvasRef s)\<rparr>;
          s = s\<lparr>drawingCanvasRef := resize (drawingCanvasRef s)\<rparr>
      in case imageCanvasRef s of
           None \<Rightarrow> s
         | Some imageCanvas \<Rightarrow>
             if hasContext2d imageCanvas
             then s\<lparr>imageCanvasRef := Some (drawImage_image img imageCanvas)\<rparr>
             else s)"

text \<open>
  The effect on \<^verbatim>\<open>imageSrc\<close>, given as the bytes the URL names: \<^verbatim>\<open>onload\<close> runs only
  if the browser decodes them, and the effect sets no \<^verbatim>\<open>onerror\<close> handler.
\<close>

definition useEffect_imageSrc :: "platform \<Rightarrow> nat list \<Rightarrow> editor \<Rightarrow> editor" where
  "useEffect_imageSrc P imageSrc s =
     (case decodeImage P imageSrc of
        None \<Rightarrow> s
      | Some img \<Rightarrow> image_onload img s)"

definition clearMask :: "editor \<Rightarrow> editor" where
  "clearMask s =
     (case drawingCanvasRef s of
        None \<Rightarrow> s
      | Some canvas \<Rightarrow>
          if hasContext2d canvas
          then s\<lparr>drawingCanvasRef := Some (clearRect (width canvas) (height canvas) canvas)\<rparr>
          else s)"

text \<open>The component as mounted: both canvas elements exist, and the effect has run.\<close>

definition ImageEditor_initial :: "platform \<Rightarrow> editor" where
  "ImageEditor_initial P =
     \<lparr>imageCanvasRef = Some (createElement_canvas P),
      drawingCanvasRef = Some (createElement_canvas P),
      imageRef = None, isDrawing = False, lastPointRef = None, brushSize = Some 40\<rparr>"

definition ImageEditor_mount :: "platform \<Rightarrow> nat list \<Rightarrow> editor" where
  "ImageEditor_mount P imageSrc = useEffect_imageSrc P imageSrc (ImageEditor_initial P)"

subsection \<open>The brush size slider\<close>

text \<open>
  \<^verbatim>\<open>parseInt\<close> on the value of the range input: leading white space, a sign, an
  optional \<^verbatim>\<open>0x\<close>, then the longest run of digits; \<^verbatim>\<open>NaN\<close> when there is none.
\<close>

definition isWhiteSpaceChar :: "char \<Rightarrow> bool" where
  "isWhiteSpaceChar c = (of_char c \<in> {9, 10, 11, 12, 13, 32, 160 :: nat})"

definition digitOf :: "nat \<Rightarrow> char \<Rightarrow> nat option" where
  "digitOf radix c =
     (let n = (of_char c :: nat);
          v = (if 48 \<le> n \<and> n \<le> 57 then Some (n - 48)
               else if 97 \<le> n \<and> n \<le> 122 then Some (n - 87)
               else if 65 \<le> n \<and> n \<le> 90 then Some (n - 55)
               else None)
      in case v of None \<Rightarrow> None | Some d \<Rightarrow> if d < radix then Some d else None)"

fun digitsPrefix :: "nat \<Rightarrow> string \<Rightarrow> nat list" where
  "digitsPrefix radix [] = []"
| "digitsPrefix radix (c # cs) =
     (case digitOf radix c of None \<Rightarrow> [] | Some d \<Rightarrow> d # digitsPrefix radix cs)"

definition parseInt :: "string \<Rightarrow> num" where
  "parseInt str =
     (let s = dropWhile isWhiteSpaceChar str;
          (sign, s) = (case s of
                         [] \<Rightarrow> (1, s)
                       | c # cs \<Rightarrow> if c = CHR ''-'' then (- 1, cs)
                                  else if c = CHR ''+'' then (1, cs) else (1, s));
          (radix, s) = (if take 2 s = ''0x'' \<or> take 2 s = ''0X'' then (16, drop 2 s)
                        else (10, s));
          ds = digitsPrefix radix s
      in if ds = [] then None
         else Some (sign * of_nat (foldl (\<lambda>a d. a * radix + d) 0 ds)))"

text \<open>The \<^verbatim>\<open>onChange\<close> handler of the slider: \<^verbatim>\<open>setBrushSize(parseInt(e.target.value))\<close>.\<close>

definition setBrushSize :: "num \<Rightarrow> editor \<Rightarrow> editor" where
  "setBrushSize px s = s\<lparr>brushSize := px\<rparr>"

definition brushSize_onChange :: "string \<Rightarrow> editor \<Rightarrow> editor" where
  "brushSize_onChange target_value s = setBrushSize (parseInt target_value) s"

text \<open>The value a range input reports for the integer \<open>n\<close>: its decimal digits.\<close>

function decimal :: "nat \<Rightarrow> string" where
  "decimal n =
     (if n < 10 then [char_of (48 + n)]
      else decimal (n div 10) @ [char_of (48 + n mod 10)])"
  by pat_completeness auto
termination
  by (relation "measure (\<lambda>n. n)") auto

declare decimal.simps [simp del]

text \<open>
  The range input of lines 170 to 178, the only caller of the handler. When the user
  asks for the position \<open>px\<close>, the input sanitises it with its attributes
  \<^verbatim>\<open>min="5"\<close> and \<^verbatim>\<open>max="150"\<close> and its step of 1: a position below the minimum
  becomes the minimum, one above the maximum becomes the maximum, and the result is
  rounded to a whole step. It reports that value in decimal digits to \<^verbatim>\<open>onChange\<close>.
\<close>

definition rangeInput_value :: "rat \<Rightarrow> string" where
  "rangeInput_value px = decimal (nat (floor (max 5 (min 150 px) + 1 / 2)))"

definition brushSize_slider :: "rat \<Rightarrow> editor \<Rightarrow> editor" where
  "brushSize_slider px s = brushSize_onChange (rangeInput_value px) s"

subsection \<open>Histories of editor operations\<close>

text \<open>
  The operations a user performs on the mounted editor, in the order of the handlers of
  the component, and the state a sequence of them leads to. An exception ends the
  handler that threw it, not the session.
\<close>

datatype action =
  StartDrawing domRect pointerEvent
  | HandleDrawing domRect pointerEvent
  | StopDrawing
  | BrushSizeChange string
  | ClearMask
  | GetMaskAsBase64

fun perform :: "platform \<Rightarrow> action \<Rightarrow> editor \<Rightarrow> editor" where
  "perform P (StartDrawing rect e) s = snd (startDrawing P rect e s)"
| "perform P (HandleDrawing rect e) s = snd (handleDrawing P rect e s)"
| "perform P StopDrawing s = stopDrawing s"
| "perform P (BrushSizeChange v) s = brushSize_onChange v s"
| "perform P ClearMask s = clearMask s"
| "perform P GetMaskAsBase64 s = snd (getMaskAsBase64 P s)"

fun run :: "platform \<Rightarrow> action list \<Rightarrow> editor \<Rightarrow> editor" where
  "run P [] s = s"
| "run P (a # as) s = run P as (perform P a s)"

section \<open>App\<close>

text \<open>
  The states \<^verbatim>\<open>App.tsx\<close> uses of the enumeration \<^verbatim>\<open>AppState\<close>, and an uploaded file:
  its declared MIME type and its bytes.
\<close>

datatype AppState = UPLOADING | EDITING | GENERATING | DISPLAYING_RESULT | ERROR

record File =
  file_type :: string
  file_bytes :: "nat list"

text \<open>
  The state of the component. \<open>originalImage\<close> holds the file (its object URL names the
  same bytes); \<open>prompt\<close> is a string of UTF-16 code units, as the user types it;
  \<open>imageEditorRef\<close> is the mounted editor, if any.
\<close>

record app =
  appState :: AppState
  originalImage :: "File option"
  editedImageUrl :: "string option"
  prompt :: "nat list"
  error :: "string option"
  imageEditorRef :: "editor option"

definition App_initial :: app where
  "App_initial =
     \<lparr>appState = UPLOADING, originalImage = None, editedImageUrl = None, prompt = [],
      error = None, imageEditorRef = None\<rparr>"

text \<open>\<^verbatim>\<open>String.prototype.startsWith\<close>, \<^verbatim>\<open>includes\<close> and \<^verbatim>\<open>trim\<close>.\<close>

definition startsWith :: "'a list \<Rightarrow> 'a list \<Rightarrow> bool" where
  "startsWith str search = (take (length search) str = search)"

fun String_includes :: "'a list \<Rightarrow> 'a list \<Rightarrow> bool" where
  "String_includes [] search = (search = [])"
| "String_includes (c # cs) search = (startsWith (c # cs) search \<or> String_includes cs search)"

definition isWhiteSpace :: "nat \<Rightarrow> bool" where
  "isWhiteSpace u =
     (u \<in> {9, 10, 11, 12, 13, 32, 160, 5760, 8232, 8233, 8239, 8287, 12288, 65279}
      \<or> (8192 \<le> u \<and> u \<le> 8202))"

definition trim :: "nat list \<Rightarrow> nat list" where
  "trim str = rev (dropWhile isWhiteSpace (rev (dropWhile isWhiteSpace str)))"

definition handleImageUpload :: "File option \<Rightarrow> app \<Rightarrow> app" where
  "handleImageUpload file a =
     (case file of
        Some f \<Rightarrow>
          if startsWith (file_type f) ''image/''
          then a\<lparr>originalImage := Some f, appState := EDITING, error := None\<rparr>
          else a\<lparr>error := Some ''Please upload a valid image file (PNG, JPG, etc.).''\<rparr>
      | None \<Rightarrow> a\<lparr>error := Some ''Please upload a valid image file (PNG, JPG, etc.).''\<rparr>)"

text \<open>
  What \<^verbatim>\<open>renderContent\<close> does to the editor: it is mounted while the state is
  \<^verbatim>\<open>EDITING\<close> or \<^verbatim>\<open>ERROR\<close> and an image is held, and unmounted otherwise.
\<close>

definition renderContent :: "platform \<Rightarrow> app \<Rightarrow> app" where
  "renderContent P a =
     (if appState a = EDITING \<or> appState a = ERROR then
        (case originalImage a of
           None \<Rightarrow> a\<lparr>imageEditorRef := None\<rparr>
         | Some f \<Rightarrow>
             (case imageEditorRef a of
                None \<Rightarrow> a\<lparr>imageEditorRef := Some (ImageEditor_mount P (file_bytes f))\<rparr>
              | Some ed \<Rightarrow> a))
      else a\<lparr>imageEditorRef := None\<rparr>)"

text \<open>
  What \<^verbatim>\<open>handleGenerate\<close> hands to \<^verbatim>\<open>editImageWithMask\<close> once the file is read: the
  original file, the mask data URL and the prompt.
\<close>

record request =
  req_original :: File
  req_mask :: string
  req_prompt :: "nat list"

text \<open>
  \<^verbatim>\<open>handleGenerate\<close> up to its return: the state it leaves, and the request to the
  inpainting service it has set up, if any. An exception of \<^verbatim>\<open>getMaskAsBase64\<close> is
  caught by the \<^verbatim>\<open>catch\<close> branch of lines 84 to 88.
\<close>

definition handleGenerate :: "platform \<Rightarrow> app \<Rightarrow> app \<times> request option" where
  "handleGenerate P a =
     (if trim (prompt a) = [] then
        (a\<lparr>error := Some ''Please enter a description of the edit you want to make.''\<rparr>,
         None)
      else
        (case (originalImage a, imageEditorRef a) of
           (Some f, Some ed) \<Rightarrow>
             (let a = a\<lparr>appState := GENERATING\<rparr>;
                  a = a\<lparr>error := None\<rparr>;
                  (result, ed') = getMaskAsBase64 P ed;
                  a = a\<lparr>imageEditorRef := Some ed'\<rparr>
              in case result of
                   Inr maskDataUrl \<Rightarrow>
                     if \<not> String_includes maskDataUrl ''data:image/png;base64,'' then
                       (a\<lparr>error :=
                            Some ''Please select an area on the image to edit by drawing on it.'',
                          appState := EDITING\<rparr>,
                        None)
                     else
                       (a, Some \<lparr>req_original = f, req_mask = maskDataUrl,
                                 req_prompt = prompt a\<rparr>)
                 | Inl err \<Rightarrow>
                     (a\<lparr>error := Some (''Generation failed: '' @ errorMessage P err),
                        appState := ERROR\<rparr>,
                      None))
         | _ \<Rightarrow> (a, None)))"

section \<open>A sample browser\<close>

text \<open>
  A concrete platform to run the model on: a rasteriser that samples each pixel at its
  centre (no antialiasing, round caps), an encoder that writes one character for each
  pixel, and a decoder for a toy format whose four leading bytes give the width and
  the height.
\<close>

definition centreCoverage :: "shape \<Rightarrow> nat \<Rightarrow> nat \<Rightarrow> rat" where
  "centreCoverage sh x y =
     (let px = of_nat x + 1 / 2; py = of_nat y + 1 / 2
      in case sh of
           Disc cx cy r \<Rightarrow>
             if (px - cx) * (px - cx) + (py - cy) * (py - cy) \<le> r * r then 1 else 0
         | Segment x0 y0 x1 y1 w cap join \<Rightarrow>
             (let dx = x1 - x0; dy = y1 - y0; len2 = dx * dx + dy * dy;
                  t = (if len2 = 0 then 0
                       else max 0 (min 1 (((px - x0) * dx + (py - y0) * dy) / len2)));
                  qx = x0 + t * dx; qy = y0 + t * dy
              in if (px - qx) * (px - qx) + (py - qy) * (py - qy) \<le> (w / 2) * (w / 2)
                 then 1 else 0))"

definition pixelChar :: "pixel \<Rightarrow> char" where
  "pixelChar p =
     (if p = opaque_black then CHR ''A'' else if p = opaque_white then CHR ''/''
      else CHR ''g'')"

definition sampleEncode :: "nat \<Rightarrow> nat \<Rightarrow> (nat \<Rightarrow> nat \<Rightarrow> pixel) \<Rightarrow> string" where
  "sampleEncode w h b = concat (map (\<lambda>y. map (\<lambda>x. pixelChar (b x y)) [0..<w]) [0..<h])"

definition sampleDecode :: "nat list \<Rightarrow> image option" where
  "sampleDecode bytes =
     (case bytes of
        w1 # w0 # h1 # h0 # rest \<Rightarrow>
          Some \<lparr>naturalWidth = w1 * 256 + w0, naturalHeight = h1 * 256 + h0,
                imagePixels = (\<lambda>x y. opaque_white)\<rparr>
      | _ \<Rightarrow> None)"

definition sampleMessage :: "exception \<Rightarrow> string" where
  "sampleMessage ex =
     (case ex of
        TypeError \<Rightarrow> ''Cannot read properties of undefined''
      | IndexSizeError \<Rightarrow> ''The radius provided is negative.''
      | InvalidStateError \<Rightarrow> ''The image argument is a canvas element with a width or height of 0.'')"

definition sampleBrowser :: platform where
  "sampleBrowser =
     \<lparr>coverage = centreCoverage, encodePNG = sampleEncode, decodeImage = sampleDecode,
      newContext2d = True, errorMessage = sampleMessage\<rparr>"

text \<open>A file declared as PNG whose bytes decode to a 400 by 300 image, and one whose
  bytes do not decode.\<close>

definition photo_400_300 :: File where
  "photo_400_300 = \<lparr>file_type = ''image/png'', file_bytes = [1, 144, 1, 44, 0]\<rparr>"

definition broken_png :: File where
  "broken_png = \<lparr>file_type = ''image/png'', file_bytes = [0]\<rparr>"

text \<open>The display rectangle of a canvas shown at 400 by 300 CSS pixels, and at 200 by 150.\<close>

definition rect_400_300 :: domRect where
  "rect_400_300 = \<lparr>rect_left = 0, rect_top = 0, rect_width = 400, rect_height = 300\<rparr>"

definition rect_200_150 :: domRect where
  "rect_200_150 = \<lparr>rect_left = 10, rect_top = 20, rect_width = 200, rect_height = 150\<rparr>"

text \<open>A decoded image of two by two pixels.\<close>

definition img_2_2 :: image where
  "img_2_2 = \<lparr>naturalWidth = 2, naturalHeight = 2, imagePixels = (\<lambda>x y. opaque_white)\<rparr>"

text \<open>
  The editor after the sample 400 by 300 image has loaded, and after one press of the
  default brush at the display point \<open>(100, 100)\<close>.
\<close>

definition editor_400_300 :: editor where
  "editor_400_300 = ImageEditor_mount sampleBrowser (file_bytes photo_400_300)"

definition one_stamp :: editor where
  "one_stamp =
     snd (startDrawing sampleBrowser rect_400_300 (MouseEvent 100 100) editor_400_300)"

text \<open>The drawing canvas of that editor before any stroke.\<close>

definition blank_400_300 :: canvas where
  "blank_400_300 =
     \<lparr>width = 400, height = 300, bitmap = (\<lambda>x y. transparent),
      hasContext2d = True, globalCompositeOperation = SourceOver,
      strokeStyle = hex_000000, fillStyle = hex_000000, lineWidth = 1,
      lineCap = ButtCap, lineJoin = MiterJoin\<rparr>"

text \<open>
  The app after that file was uploaded and the editor was rendered, with a prompt typed
  and nothing painted; a prompt of white space only; and a file declared as text.
\<close>

definition prompt_red :: "nat list" where
  "prompt_red = map of_char ''make the sky red''"

definition app_unpainted :: app where
  "app_unpainted =
     (renderContent sampleBrowser (handleImageUpload (Some photo_400_300) App_initial))
       \<lparr>prompt := prompt_red\<rparr>"

definition prompt_blank :: "nat list" where
  "prompt_blank = [32, 9, 10, 160, 12288]"

definition notes_txt :: File where
  "notes_txt = \<lparr>file_type = ''text/plain'', file_bytes = [1, 144, 1, 44, 0]\<rparr>"

section \<open>Reading pixels\<close>

text \<open>
  A pixel of the drawing canvas, and the same pixel of the mask canvas that
  \<^verbatim>\<open>getMaskAsBase64\<close> encodes.
\<close>

definition strokePixel :: "editor \<Rightarrow> nat \<Rightarrow> nat \<Rightarrow> pixel option" where
  "strokePixel s x y = map_option (\<lambda>dc. bitmap dc x y) (drawingCanvasRef s)"

definition maskPixel :: "platform \<Rightarrow> editor \<Rightarrow> nat \<Rightarrow> nat \<Rightarrow> pixel option" where
  "maskPixel P s x y =
     (case drawingCanvasRef s of
        None \<Rightarrow> None
      | Some dc \<Rightarrow>
          (case fst (renderMask P dc) of
             Inl ex \<Rightarrow> None
           | Inr maskCanvas \<Rightarrow> Some (bitmap maskCanvas x y)))"

section \<open>Geometry of the drawing canvas\<close>

text \<open>The size of the drawing canvas and whether it has a context, if it is mounted.\<close>

definition canvasGeometry :: "editor \<Rightarrow> (nat \<times> nat \<times> bool) option" where
  "canvasGeometry s =
     map_option (\<lambda>c. (width c, height c, hasContext2d c)) (drawingCanvasRef s)"

section \<open>The mask export\<close>

lemma renderMask_drawingCanvas: "snd (renderMask P dc) = dc"
  by (simp add: renderMask_def Let_def drawImage_def)

lemma getMaskAsBase64_state: "snd (getMaskAsBase64 P s) = s"
proof (cases "drawingCanvasRef s")
  case None
  then show ?thesis by (simp add: getMaskAsBase64_def)
next
  case (Some dc)
  have "snd (renderMask P dc) = dc" by (rule renderMask_drawingCanvas)
  with Some show ?thesis
    by (simp add: getMaskAsBase64_def split_beta Let_def split: sum.splits)
qed

text \<open>On a drawing canvas without pixels the export throws at line 123.\<close>

lemma renderMask_throws:
  "width dc = 0 \<or> height dc = 0 \<Longrightarrow> newContext2d P \<Longrightarrow>
   fst (renderMask P dc) = Inl InvalidStateError"
  by (simp add: renderMask_def Let_def drawImage_def createElement_canvas_def set_width_def
      set_height_def)

text \<open>
  On a drawing canvas with pixels the export returns a mask canvas of the same size.
  Inside the image, a mask pixel keeps the premultiplied colour of the stroke pixel and
  gets the alpha \<open>a + (1 - a)\<^sup>2\<close>, where \<open>a\<close> is the alpha of the stroke pixel.
\<close>

lemma renderMask_returns:
  assumes "0 < width dc" "0 < height dc"
  shows "\<exists>m :: canvas. fst (renderMask P dc) = Inr m \<and> width m = width dc
           \<and> height m = height dc
           \<and> (newContext2d P \<and> hasContext2d dc \<longrightarrow>
                (\<forall>x y. x < width dc \<and> y < height dc \<longrightarrow>
                   bitmap m x y =
                     \<lparr>p_red = p_red (bitmap dc x y), p_green = p_green (bitmap dc x y),
                      p_blue = p_blue (bitmap dc x y),
                      p_alpha = p_alpha (bitmap dc x y)
                        + (1 - p_alpha (bitmap dc x y)) * (1 - p_alpha (bitmap dc x y))\<rparr>))"
  using assms
  by (simp add: renderMask_def Let_def createElement_canvas_def set_width_def
      set_height_def fillRect_def drawImage_def source_pixel_def hex_000000_def
      transparent_def)

lemma getMaskAsBase64_encodes:
  "drawingCanvasRef s = Some dc \<Longrightarrow> fst (renderMask P dc) = Inr m \<Longrightarrow>
   fst (getMaskAsBase64 P s) = Inr (toDataURL P m)"
  by (simp add: getMaskAsBase64_def split_beta Let_def)

text \<open>
  Claim C7. Calling \<^verbatim>\<open>getMaskAsBase64\<close> twice in a row, with nothing in between,
  returns the same encoded string both times: the second call, made on the state the
  first call leaves, gives what the first call gave.
\<close>

theorem getMaskAsBase64_twice:
  "fst (getMaskAsBase64 P (snd (getMaskAsBase64 P s))) = fst (getMaskAsBase64 P s)"
  by (simp add: getMaskAsBase64_state)

text \<open>
  Claim C8. \<^verbatim>\<open>getMaskAsBase64\<close> leaves the whole editor state as it found it: every
  pixel of the drawing canvas and every setting of its context (composite operation,
  stroke style, fill style) have their values from before the call. Of the other
  operations of the editor, ending a stroke and changing the brush size leave the
  drawing canvas untouched as well; it is changed by starting a stroke, extending a
  stroke and clearing the mask (and made anew when an image loads).
\<close>

theorem getMaskAsBase64_pure:
  "snd (getMaskAsBase64 P s) = s
   \<and> perform P GetMaskAsBase64 s = s
   \<and> drawingCanvasRef (perform P StopDrawing s) = drawingCanvasRef s
   \<and> drawingCanvasRef (perform P (BrushSizeChange v) s) = drawingCanvasRef s"
  by (simp add: getMaskAsBase64_state stopDrawing_def brushSize_onChange_def
      setBrushSize_def)

section \<open>Operations keep the size of the drawing canvas\<close>

lemma paint_geometry [simp]:
  "width (paint P sh col c) = width c" "height (paint P sh col c) = height c"
  "hasContext2d (paint P sh col c) = hasContext2d c"
  by (simp_all add: paint_def)

lemma set_lineWidth_geometry [simp]:
  "width (set_lineWidth v c) = width c" "height (set_lineWidth v c) = height c"
  "hasContext2d (set_lineWidth v c) = hasContext2d c"
  by (simp_all add: set_lineWidth_def split: option.splits)

lemma strokeLine_geometry [simp]:
  "width (strokeLine P a b c d ctx) = width ctx" "height (strokeLine P a b c d ctx) = height ctx"
  "hasContext2d (strokeLine P a b c d ctx) = hasContext2d ctx"
  by (simp_all add: strokeLine_def split: option.splits)

lemma fillArc_geometry:
  "fillArc P x y r ctx = Inr ctx' \<Longrightarrow>
     width ctx' = width ctx \<and> height ctx' = height ctx \<and> hasContext2d ctx' = hasContext2d ctx"
  by (auto simp: fillArc_def split: option.splits if_splits)

lemma drawOnCanvas_geometry:
  "canvasGeometry (snd (drawOnCanvas P rect e s)) = canvasGeometry s"
  by (auto simp: drawOnCanvas_def canvasGeometry_def Let_def
      split: option.splits sum.splits prod.splits dest: fillArc_geometry)

lemma canvasGeometry_update [simp]:
  "canvasGeometry (s\<lparr>isDrawing := b\<rparr>) = canvasGeometry s"
  "canvasGeometry (s\<lparr>lastPointRef := lp\<rparr>) = canvasGeometry s"
  "canvasGeometry (s\<lparr>brushSize := bs\<rparr>) = canvasGeometry s"
  by (simp_all add: canvasGeometry_def)

lemma clearMask_geometry: "canvasGeometry (clearMask s) = canvasGeometry s"
  by (auto simp: clearMask_def canvasGeometry_def clearRect_def split: option.splits)

lemma perform_geometry: "canvasGeometry (perform P a s) = canvasGeometry s"
  by (cases a)
    (simp_all add: startDrawing_def handleDrawing_def stopDrawing_def brushSize_onChange_def
      setBrushSize_def clearMask_geometry drawOnCanvas_geometry getMaskAsBase64_state)

lemma run_geometry: "canvasGeometry (run P as s) = canvasGeometry s"
  by (induction as arbitrary: s) (simp_all add: perform_geometry)

lemma image_onload_geometry:
  "drawingCanvasRef s = Some c \<Longrightarrow>
   canvasGeometry (image_onload img s) = Some (naturalWidth img, naturalHeight img, hasContext2d c)"
  by (simp add: image_onload_def canvasGeometry_def Let_def set_width_def set_height_def
      split: option.splits)

section \<open>Clearing the mask\<close>

lemma clearMask_cleared:
  assumes "drawingCanvasRef s = Some c" "hasContext2d c"
  shows "\<exists>c'. drawingCanvasRef (clearMask s) = Some c' \<and> width c' = width c
           \<and> height c' = height c \<and> hasContext2d c'
           \<and> (\<forall>x y. x < width c \<and> y < height c \<longrightarrow> bitmap c' x y = transparent)"
  using assms by (simp add: clearMask_def clearRect_def)

text \<open>
  Claim C2. Whatever was done to the editor since the image loaded (any sequence of
  stroke, brush, clear and export operations), \<^verbatim>\<open>clearMask\<close> followed by
  \<^verbatim>\<open>getMaskAsBase64\<close> returns a PNG data URL, not an error value, encoding an image of
  the width and height of the source image in which every pixel is opaque black.
\<close>

theorem clearMask_then_getMaskAsBase64:
  assumes canvas: "drawingCanvasRef s0 = Some c0" "hasContext2d c0"
    and ctx: "newContext2d P"
    and size: "0 < naturalWidth img" "0 < naturalHeight img"
  shows "\<exists>mask :: canvas.
           fst (getMaskAsBase64 P (clearMask (run P history (image_onload img s0))))
             = Inr (''data:image/png;base64,''
                 @ encodePNG P (naturalWidth img) (naturalHeight img) (bitmap mask))
           \<and> (\<forall>x y. x < naturalWidth img \<and> y < naturalHeight img
                  \<longrightarrow> bitmap mask x y = opaque_black)"
proof -
  let ?s1 = "run P history (image_onload img s0)"
  have "canvasGeometry ?s1 = Some (naturalWidth img, naturalHeight img, True)"
    using canvas by (simp add: run_geometry image_onload_geometry)
  then obtain c1 where c1: "drawingCanvasRef ?s1 = Some c1" "width c1 = naturalWidth img"
      "height c1 = naturalHeight img" "hasContext2d c1"
    by (auto simp: canvasGeometry_def)
  from clearMask_cleared [OF c1(1) c1(4)] obtain c2 where
    c2: "drawingCanvasRef (clearMask ?s1) = Some c2" "width c2 = width c1"
      "height c2 = height c1" "hasContext2d c2"
      "\<forall>x y. x < width c1 \<and> y < height c1 \<longrightarrow> bitmap c2 x y = transparent"
    by blast
  have pos: "0 < width c2" "0 < height c2" using size c1 c2 by simp_all
  from renderMask_returns [OF pos, of P] ctx c2(4) obtain m :: canvas where
    m: "fst (renderMask P c2) = Inr m" "width m = width c2" "height m = height c2"
      "\<forall>x y. x < width c2 \<and> y < height c2 \<longrightarrow>
         bitmap m x y =
           \<lparr>p_red = p_red (bitmap c2 x y), p_green = p_green (bitmap c2 x y),
            p_blue = p_blue (bitmap c2 x y),
            p_alpha = p_alpha (bitmap c2 x y)
              + (1 - p_alpha (bitmap c2 x y)) * (1 - p_alpha (bitmap c2 x y))\<rparr>"
    by blast
  have url: "fst (getMaskAsBase64 P (clearMask ?s1)) = Inr (toDataURL P m)"
    using c2(1) m(1) by (rule getMaskAsBase64_encodes)
  have dims: "width m = naturalWidth img" "height m = naturalHeight img"
    using c1 c2 m by simp_all
  have black: "bitmap m x y = opaque_black"
    if "x < naturalWidth img" "y < naturalHeight img" for x y
  proof -
    have inside: "x < width c2 \<and> y < height c2" using that c1 c2 by simp
    have "bitmap c2 x y = transparent" using that c1 c2 by simp
    with m(4) inside show ?thesis
      by (simp add: transparent_def opaque_black_def)
  qed
  have "toDataURL P m = ''data:image/png;base64,''
          @ encodePNG P (naturalWidth img) (naturalHeight img) (bitmap m)"
    using size dims by (simp add: toDataURL_def)
  with url have "fst (getMaskAsBase64 P (clearMask ?s1)) = Inr (''data:image/png;base64,''
          @ encodePNG P (naturalWidth img) (naturalHeight img) (bitmap m))"
    by simp
  moreover have "\<forall>x y. x < naturalWidth img \<and> y < naturalHeight img
      \<longrightarrow> bitmap m x y = opaque_black"
    using black by blast
  ultimately have "fst (getMaskAsBase64 P (clearMask ?s1)) = Inr (''data:image/png;base64,''
          @ encodePNG P (naturalWidth img) (naturalHeight img) (bitmap m))
      \<and> (\<forall>x y. x < naturalWidth img \<and> y < naturalHeight img
      \<longrightarrow> bitmap m x y = opaque_black)"
    by (rule conjI)
  then show ?thesis by (rule exI [of _ m])
qed

theorem clearMask_then_getMaskAsBase64_witness:
  "\<exists>mask :: canvas.
     fst (getMaskAsBase64 sampleBrowser
            (clearMask (run sampleBrowser
               [StartDrawing rect_400_300 (MouseEvent 100 100), StopDrawing]
               (image_onload img_2_2 (ImageEditor_initial sampleBrowser)))))
       = Inr (''data:image/png;base64,''
           @ encodePNG sampleBrowser (naturalWidth img_2_2) (naturalHeight img_2_2)
               (bitmap mask))
     \<and> (\<forall>x y. x < naturalWidth img_2_2 \<and> y < naturalHeight img_2_2
            \<longrightarrow> bitmap mask x y = opaque_black)"
  by (rule clearMask_then_getMaskAsBase64
        [of "ImageEditor_initial sampleBrowser" "createElement_canvas sampleBrowser"])
     (simp_all add: ImageEditor_initial_def createElement_canvas_def sampleBrowser_def
        img_2_2_def)

section \<open>The sample states, evaluated\<close>

lemma editor_400_300_value:
  "editor_400_300 =
     \<lparr>imageCanvasRef = Some \<lparr>width = 400, height = 300,
        bitmap = (\<lambda>x y. if x < 400 \<and> y < 300 then opaque_white else transparent),
        hasContext2d = True, globalCompositeOperation = SourceOver,
        strokeStyle = hex_000000, fillStyle = hex_000000, lineWidth = 1,
        lineCap = ButtCap, lineJoin = MiterJoin\<rparr>,
      drawingCanvasRef = Some blank_400_300,
      imageRef = Some \<lparr>naturalWidth = 400, naturalHeight = 300,
        imagePixels = (\<lambda>x y. opaque_white)\<rparr>,
      isDrawing = False, lastPointRef = None, brushSize = Some 40\<rparr>"
  by (simp add: editor_400_300_def ImageEditor_mount_def useEffect_imageSrc_def
      sampleBrowser_def sampleDecode_def photo_400_300_def image_onload_def Let_def
      ImageEditor_initial_def createElement_canvas_def set_width_def set_height_def
      drawImage_image_def opaque_white_def transparent_def fun_eq_iff blank_400_300_def)

lemma app_unpainted_value:
  "app_unpainted =
     \<lparr>appState = EDITING, originalImage = Some photo_400_300, editedImageUrl = None,
      prompt = prompt_red, error = None, imageEditorRef = Some editor_400_300\<rparr>"
  by (simp add: app_unpainted_def renderContent_def handleImageUpload_def App_initial_def
      photo_400_300_def startsWith_def editor_400_300_def)

section \<open>What the exported mask holds\<close>

text \<open>
  A stroke pixel that is neither transparent nor opaque gives a mask pixel that is not
  opaque.
\<close>

lemma renderMask_partial_alpha:
  assumes "newContext2d P" "hasContext2d dc" "x < width dc" "y < height dc"
    and "0 < p_alpha (bitmap dc x y)" "p_alpha (bitmap dc x y) < 1"
  shows "\<exists>m :: canvas. fst (renderMask P dc) = Inr m \<and> p_alpha (bitmap m x y) < 1"
proof -
  let ?a = "p_alpha (bitmap dc x y)"
  have "0 < ?a * (1 - ?a)" using assms(5,6) by simp
  then have less: "?a + (1 - ?a) * (1 - ?a) < 1" by (simp add: algebra_simps)
  have "0 < width dc" "0 < height dc" using assms(3,4) by simp_all
  from renderMask_returns [OF this, of P] assms(1-4) obtain m :: canvas where
    "fst (renderMask P dc) = Inr m"
    "p_alpha (bitmap m x y) = ?a + (1 - ?a) * (1 - ?a)"
    by fastforce
  with less show ?thesis by auto
qed

text \<open>
  Claim C1, which the code does not meet. One press of the default brush on the sample
  400 by 300 image paints the stroke colour \<^verbatim>\<open>rgba(255, 255, 255, 0.7)\<close>: the pixel
  under the pointer has alpha \<open>7/10\<close>, which is not zero, and the mask canvas that
  \<^verbatim>\<open>getMaskAsBase64\<close> encodes holds there a pixel of alpha \<open>79/100\<close> and
  premultiplied colour \<open>7/10\<close>, which is neither opaque white nor opaque black. A pixel
  away from the stamp is opaque black.
\<close>

theorem getMaskAsBase64_not_binary:
  "strokePixel one_stamp 100 100 =
     Some \<lparr>p_red = 7 / 10, p_green = 7 / 10, p_blue = 7 / 10, p_alpha = 7 / 10\<rparr>
   \<and> maskPixel sampleBrowser one_stamp 100 100 =
     Some \<lparr>p_red = 7 / 10, p_green = 7 / 10, p_blue = 7 / 10, p_alpha = 79 / 100\<rparr>
   \<and> maskPixel sampleBrowser one_stamp 100 100 \<noteq> Some opaque_white
   \<and> maskPixel sampleBrowser one_stamp 300 200 = Some opaque_black"
  by (simp add: strokePixel_def maskPixel_def one_stamp_def startDrawing_def
      drawOnCanvas_def editor_400_300_value blank_400_300_def Let_def currentPoint_def
      num_div_def num_mul_def rect_400_300_def set_lineWidth_def fillArc_def paint_def
      sampleBrowser_def centreCoverage_def source_pixel_def rgba_255_255_255_07_def
      transparent_def renderMask_def createElement_canvas_def set_width_def
      set_height_def fillRect_def drawImage_def hex_000000_def opaque_white_def
      opaque_black_def)

section \<open>Strokes\<close>

text \<open>
  Claim C4. A pointer event at the display point \<open>(dx, dy)\<close> (the offset of a mouse
  event, or the client position of the first touch less the origin of the canvas
  rectangle), on a canvas displayed at \<open>Wd\<close> by \<open>Hd\<close> with a buffer of \<open>Wb\<close> by \<open>Hb\<close>,
  stamps the brush disc at the buffer point \<open>(dx * Wb / Wd, dy * Hb / Hd)\<close>, ends the
  connecting segment (if a last point is recorded) there, and records that point as the
  last point. This needs a mounted canvas with a context, a display size that is not
  zero and a brush size that is a number and not negative.
\<close>

theorem drawOnCanvas_stamp:
  fixes c :: canvas and dx dy b X Y :: rat and ctx :: canvas
  assumes canvas: "drawingCanvasRef s = Some c" "hasContext2d c"
    and display: "rect_width rect \<noteq> 0" "rect_height rect \<noteq> 0"
    and brush: "brushSize s = Some b" "0 \<le> b"
    and event: "e = MouseEvent dx dy
                \<or> e = TouchEvent ((rect_left rect + dx, rect_top rect + dy) # touches)"
  defines "X \<equiv> dx * of_nat (width c) / rect_width rect"
    and "Y \<equiv> dy * of_nat (height c) / rect_height rect"
    and "ctx \<equiv> set_lineWidth (Some b)
                  (c\<lparr>strokeStyle := rgba_255_255_255_07,
                     fillStyle := rgba_255_255_255_07\<rparr>)
                \<lparr>lineCap := RoundCap, lineJoin := RoundJoin\<rparr>"
  shows "drawOnCanvas P rect e s =
     (None,
      s\<lparr>drawingCanvasRef :=
          Some (paint P (Disc X Y (b / 2)) rgba_255_255_255_07
                  (case lastPointRef s of
                     Some (lastX, lastY) \<Rightarrow> strokeLine P lastX lastY (Some X) (Some Y) ctx
                   | None \<Rightarrow> ctx)),
         lastPointRef := Some (Some X, Some Y)\<rparr>)"
proof -
  have pt: "currentPoint rect (num_div (of_nat (width c)) (rect_width rect))
              (num_div (of_nat (height c)) (rect_height rect)) e
            = Inr (Some X, Some Y)"
    using display event
    by (auto simp: currentPoint_def num_div_def num_mul_def X_def Y_def)
  show ?thesis
    using canvas brush
    by (simp add: drawOnCanvas_def Let_def pt fillArc_def set_lineWidth_def strokeLine_def
        paint_def ctx_def split: option.splits cong: if_cong)
qed

theorem drawOnCanvas_stamp_witness:
  "drawOnCanvas sampleBrowser rect_200_150 (TouchEvent [(60, 70)]) editor_400_300 =
     (None,
      editor_400_300\<lparr>drawingCanvasRef :=
          Some (paint sampleBrowser (Disc 100 100 20) rgba_255_255_255_07
                  (blank_400_300\<lparr>strokeStyle := rgba_255_255_255_07,
                     fillStyle := rgba_255_255_255_07, lineWidth := 40,
                     lineCap := RoundCap, lineJoin := RoundJoin\<rparr>)),
         lastPointRef := Some (Some 100, Some 100)\<rparr>)"
  using drawOnCanvas_stamp [of editor_400_300 blank_400_300 rect_200_150 40
      "TouchEvent [(60, 70)]" 50 50 "[]" sampleBrowser]
  by (simp add: editor_400_300_value rect_200_150_def blank_400_300_def set_lineWidth_def)

text \<open>
  Claim C3. \<^verbatim>\<open>startDrawing\<close> forgets the recorded last point before it draws: wherever
  the previous stroke ended, the result is the one obtained with no last point recorded,
  and the bitmap either stays as it was or receives exactly the stamp disc at the new
  point. No segment from the previous end point is painted.
\<close>

theorem startDrawing_no_bridge:
  assumes canvas: "drawingCanvasRef s = Some c"
  shows "startDrawing P rect e s = startDrawing P rect e (s\<lparr>lastPointRef := None\<rparr>)
    \<and> (\<exists>c' :: canvas. drawingCanvasRef (snd (startDrawing P rect e s)) = Some c'
         \<and> (bitmap c' = bitmap c
            \<or> (\<exists>cx cy b.
                  currentPoint rect (num_div (of_nat (width c)) (rect_width rect))
                    (num_div (of_nat (height c)) (rect_height rect)) e
                    = Inr (Some cx, Some cy)
                  \<and> brushSize s = Some b
                  \<and> bitmap c' = bitmap (paint P (Disc cx cy (b / 2)) rgba_255_255_255_07 c))))"
proof
  show "startDrawing P rect e s = startDrawing P rect e (s\<lparr>lastPointRef := None\<rparr>)"
    by (simp add: startDrawing_def)
next
  let ?pt = "currentPoint rect (num_div (of_nat (width c)) (rect_width rect))
               (num_div (of_nat (height c)) (rect_height rect)) e"
  show "\<exists>c' :: canvas. drawingCanvasRef (snd (startDrawing P rect e s)) = Some c'
         \<and> (bitmap c' = bitmap c
            \<or> (\<exists>cx cy b. ?pt = Inr (Some cx, Some cy) \<and> brushSize s = Some b
                  \<and> bitmap c' = bitmap (paint P (Disc cx cy (b / 2)) rgba_255_255_255_07 c)))"
  proof (cases ?pt)
    case (Inl ex)
    with canvas show ?thesis
      by (simp add: startDrawing_def drawOnCanvas_def Let_def)
  next
    case (Inr p)
    obtain x y where p: "p = (x, y)" by (cases p)
    show ?thesis
    proof (cases "hasContext2d c")
      case False
      with canvas Inr p show ?thesis
        by (simp add: startDrawing_def drawOnCanvas_def Let_def)
    next
      case True
      show ?thesis
      proof (cases "\<exists>cx cy b. x = Some cx \<and> y = Some cy \<and> brushSize s = Some b")
        case False
        with canvas Inr p True show ?thesis
          by (auto simp: startDrawing_def drawOnCanvas_def Let_def fillArc_def
              set_lineWidth_def split: option.splits)
      next
        case True
        then obtain cx cy b where v: "x = Some cx" "y = Some cy" "brushSize s = Some b"
          by blast
        show ?thesis
        proof (cases "b < 0")
          case True
          with canvas Inr p \<open>hasContext2d c\<close> v show ?thesis
            by (simp add: startDrawing_def drawOnCanvas_def Let_def fillArc_def
                set_lineWidth_def)
        next
          case False
          with canvas Inr p \<open>hasContext2d c\<close> v show ?thesis
            by (simp add: startDrawing_def drawOnCanvas_def Let_def fillArc_def
                set_lineWidth_def paint_def cong: if_cong)
        qed
      qed
    qed
  qed
qed

theorem startDrawing_no_bridge_witness:
  "startDrawing sampleBrowser rect_400_300 (MouseEvent 300 200) one_stamp
     = startDrawing sampleBrowser rect_400_300 (MouseEvent 300 200)
         (one_stamp\<lparr>lastPointRef := None\<rparr>)
   \<and> lastPointRef one_stamp = Some (Some 100, Some 100)"
proof -
  have c: "drawingCanvasRef one_stamp =
      Some (paint sampleBrowser (Disc 100 100 20) rgba_255_255_255_07
              (blank_400_300\<lparr>strokeStyle := rgba_255_255_255_07,
                 fillStyle := rgba_255_255_255_07, lineWidth := 40,
                 lineCap := RoundCap, lineJoin := RoundJoin\<rparr>))"
    and l: "lastPointRef one_stamp = Some (Some 100, Some 100)"
    by (simp_all add: one_stamp_def startDrawing_def drawOnCanvas_def editor_400_300_value
        Let_def currentPoint_def num_div_def num_mul_def rect_400_300_def
        set_lineWidth_def fillArc_def blank_400_300_def)
  from startDrawing_no_bridge [OF c] l show ?thesis by blast
qed

section \<open>The brush size\<close>

lemma decimal_digits: "c \<in> set (decimal n) \<Longrightarrow> 48 \<le> (of_char c :: nat) \<and> (of_char c :: nat) \<le> 57"
proof (induction n rule: decimal.induct)
  case (1 n)
  show ?case
  proof (cases "n < 10")
    case True
    with "1.prems" show ?thesis
      by (subst (asm) decimal.simps) (auto simp: of_char_of)
  next
    case False
    with "1.prems" have "c \<in> set (decimal (n div 10)) \<or> c = char_of (48 + n mod 10)"
      by (subst (asm) decimal.simps) auto
    then show ?thesis
    proof
      assume "c \<in> set (decimal (n div 10))"
      with False "1.IH" show ?thesis by simp
    next
      assume c: "c = char_of (48 + n mod 10)"
      have "n mod 10 < 10" by simp
      then have "(48 + n mod 10) mod 256 = 48 + n mod 10" by simp
      with c show ?thesis by (simp add: of_char_of)
    qed
  qed
qed

lemma decimal_not_Nil: "decimal n \<noteq> []"
  by (subst decimal.simps) simp

lemma digitsPrefix_digits:
  "\<forall>c \<in> set xs. 48 \<le> (of_char c :: nat) \<and> (of_char c :: nat) \<le> 57 \<Longrightarrow>
   digitsPrefix 10 xs = map (\<lambda>c. of_char c - 48) xs"
  by (induction xs) (auto simp: digitOf_def Let_def)

lemma decimal_value:
  "foldl (\<lambda>a d. a * 10 + d) 0 (map (\<lambda>c. of_char c - 48) (decimal n)) = n"
proof (induction n rule: decimal.induct)
  case (1 n)
  show ?case
  proof (cases "n < 10")
    case True
    then have "(48 + n) mod 256 = 48 + n" by simp
    with True show ?thesis
      by (subst decimal.simps) (simp add: of_char_of)
  next
    case False
    have "n mod 10 < 10" by simp
    then have m: "(48 + n mod 10) mod 256 = 48 + n mod 10" by simp
    from False "1.IH" have
      "foldl (\<lambda>a d. a * 10 + d) 0 (map (\<lambda>c. of_char c - 48) (decimal (n div 10))) = n div 10"
      by simp
    with False m show ?thesis
      by (subst decimal.simps) (simp add: of_char_of)
  qed
qed

lemma parseInt_decimal: "parseInt (decimal n) = Some (of_nat n)"
proof -
  obtain c cs where cs: "decimal n = c # cs"
    using decimal_not_Nil [of n] by (cases "decimal n") auto
  have dig: "\<And>d. d \<in> set (c # cs) \<Longrightarrow> 48 \<le> (of_char d :: nat) \<and> (of_char d :: nat) \<le> 57"
    using decimal_digits [of _ n] cs by simp
  have c: "48 \<le> (of_char c :: nat)" "(of_char c :: nat) \<le> 57" using dig [of c] by simp_all
  have nws: "\<not> isWhiteSpaceChar c" using c by (auto simp: isWhiteSpaceChar_def)
  have nsign: "c \<noteq> CHR ''-''" "c \<noteq> CHR ''+''" using c by auto
  have nohex: "take 2 (c # cs) \<noteq> ''0x''" "take 2 (c # cs) \<noteq> ''0X''"
  proof -
    { fix d ds assume "cs = d # ds"
      then have "48 \<le> (of_char d :: nat) \<and> (of_char d :: nat) \<le> 57" using dig [of d] by simp
      then have "d \<noteq> CHR ''x''" "d \<noteq> CHR ''X''" by auto }
    then show "take 2 (c # cs) \<noteq> ''0x''" "take 2 (c # cs) \<noteq> ''0X''"
      by (cases cs; auto)+
  qed
  have ds: "digitsPrefix 10 (c # cs) = map (\<lambda>c. of_char c - 48) (c # cs)"
    using dig by (intro digitsPrefix_digits) blast
  have val: "foldl (\<lambda>a d. a * 10 + d) 0 (map (\<lambda>c. of_char c - 48) (c # cs)) = n"
    using decimal_value [of n] cs by simp
  show ?thesis
    unfolding parseInt_def cs using nws nsign nohex ds val
    by (auto simp add: Let_def simp del: digitsPrefix.simps foldl.simps list.map)
qed

lemma rangeInput_floor:
  fixes px :: rat
  shows "5 \<le> floor (max 5 (min 150 px) + 1 / 2)"
    and "floor (max 5 (min 150 px) + 1 / 2) \<le> 150"
  by (simp_all add: le_floor_iff floor_le_iff)

lemma parseInt_rangeInput:
  "parseInt (rangeInput_value px) = Some (of_int (floor (max 5 (min 150 px) + 1 / 2)))"
proof -
  have "0 \<le> floor (max 5 (min 150 px) + 1 / 2)"
    using rangeInput_floor(1) [of px] by linarith
  then have "(of_nat (nat (floor (max 5 (min 150 px) + 1 / 2))) :: rat)
      = of_int (floor (max 5 (min 150 px) + 1 / 2))"
    by simp
  then show ?thesis
    by (simp only: rangeInput_value_def parseInt_decimal)
qed

text \<open>
  Claim C5. Whatever position \<open>px\<close> is asked of the brush slider, the diameter that is
  stored lies in \<open>[5, 150]\<close>: it is \<open>px\<close> brought into that range and rounded to a
  whole number, so that a request below 5 stores 5, a request above 150 stores 150 (the
  request is clamped, not refused), and a whole number from 5 to 150 is stored as it
  is. The default brush diameter is 40.
\<close>

theorem brushSize_slider_clamps:
  "brushSize (brushSize_slider px s)
     = Some (of_int (floor (max 5 (min 150 px) + 1 / 2)))
   \<and> (\<exists>b. brushSize (brushSize_slider px s) = Some b \<and> 5 \<le> b \<and> b \<le> 150)
   \<and> (px \<le> 5 \<longrightarrow> brushSize (brushSize_slider px s) = Some 5)
   \<and> (150 \<le> px \<longrightarrow> brushSize (brushSize_slider px s) = Some 150)
   \<and> (5 \<le> n \<and> n \<le> 150 \<longrightarrow> brushSize (brushSize_slider (of_int n) s) = Some (of_int n))
   \<and> brushSize (ImageEditor_initial P) = Some 40"
proof -
  have stored: "brushSize (brushSize_slider q s)
      = Some (of_int (floor (max 5 (min 150 q) + 1 / 2)))" for q
    by (simp add: brushSize_slider_def brushSize_onChange_def setBrushSize_def
        parseInt_rangeInput)
  have range: "(5 :: rat) \<le> of_int (floor (max 5 (min 150 px) + 1 / 2))"
      "(of_int (floor (max 5 (min 150 px) + 1 / 2)) :: rat) \<le> 150"
    using rangeInput_floor [of px] by (simp_all add: of_int_le_iff [symmetric] del: of_int_le_iff)
  have low: "px \<le> 5 \<Longrightarrow> floor (max 5 (min 150 px) + 1 / 2) = 5"
    by (simp add: max_def min_def floor_unique)
  have high: "150 \<le> px \<Longrightarrow> floor (max 5 (min 150 px) + 1 / 2) = 150"
    by (simp add: max_def min_def floor_unique)
  have whole: "floor (max 5 (min 150 (of_int n :: rat)) + 1 / 2) = n"
    if "5 \<le> n \<and> n \<le> 150"
  proof -
    have "(5 :: rat) \<le> of_int n" "(of_int n :: rat) \<le> 150"
      using that by (simp_all add: of_int_le_iff [of 5 n, symmetric]
          of_int_le_iff [of n 150, symmetric] del: of_int_le_iff)
    then have "max 5 (min 150 (of_int n :: rat)) = of_int n" by (simp add: max_def min_def)
    moreover have "floor ((of_int n :: rat) + 1 / 2) = n" by (rule floor_unique) simp_all
    ultimately show ?thesis by simp
  qed
  show ?thesis
    using stored range low high whole
    by (simp add: ImageEditor_initial_def)
qed

theorem brushSize_slider_clamps_witness:
  "brushSize (brushSize_slider 200 (ImageEditor_initial sampleBrowser)) = Some 150
   \<and> brushSize (brushSize_slider 3 (ImageEditor_initial sampleBrowser)) = Some 5
   \<and> brushSize (brushSize_slider 60 (ImageEditor_initial sampleBrowser)) = Some 60"
proof -
  have "(150 :: rat) \<le> 200" "(3 :: rat) \<le> 5" "(5 :: int) \<le> 60 \<and> (60 :: int) \<le> 150"
    by simp_all
  with brushSize_slider_clamps [of 200 "ImageEditor_initial sampleBrowser" 60 sampleBrowser]
    brushSize_slider_clamps [of 3 "ImageEditor_initial sampleBrowser" 60 sampleBrowser]
  have "brushSize (brushSize_slider 200 (ImageEditor_initial sampleBrowser)) = Some 150"
    "brushSize (brushSize_slider 3 (ImageEditor_initial sampleBrowser)) = Some 5"
    "brushSize (brushSize_slider (of_int 60) (ImageEditor_initial sampleBrowser))
       = Some (of_int 60)"
    by blast+
  then show ?thesis by simp
qed

section \<open>Generating\<close>

lemma String_includes_Nil: "String_includes str []"
  by (cases str) (simp_all add: startsWith_def)

lemma String_includes_prefix: "String_includes (search @ rest) search"
  by (cases search) (simp_all add: startsWith_def String_includes_Nil)

lemma trim_prompt_red: "trim prompt_red \<noteq> []"
  by (simp add: prompt_red_def trim_def isWhiteSpace_def)

lemma mask_unpainted:
  "maskPixel sampleBrowser editor_400_300 x y =
     Some (if x < 400 \<and> y < 300 then opaque_black else transparent)"
  by (simp add: maskPixel_def editor_400_300_value blank_400_300_def renderMask_def Let_def
      createElement_canvas_def sampleBrowser_def set_width_def set_height_def fillRect_def
      drawImage_def source_pixel_def hex_000000_def transparent_def opaque_black_def)

lemma url_unpainted:
  "\<exists>url. fst (getMaskAsBase64 sampleBrowser editor_400_300)
            = Inr (''data:image/png;base64,'' @ url)"
proof -
  have "0 < width blank_400_300" "0 < height blank_400_300"
    by (simp_all add: blank_400_300_def)
  from renderMask_returns [OF this, of sampleBrowser] obtain m :: canvas where
    m: "fst (renderMask sampleBrowser blank_400_300) = Inr m" "width m = 400" "height m = 300"
    by (auto simp: blank_400_300_def)
  have "drawingCanvasRef editor_400_300 = Some blank_400_300"
    by (simp add: editor_400_300_value)
  from getMaskAsBase64_encodes [OF this m(1)] m(2,3) show ?thesis
    by (simp add: toDataURL_def)
qed

text \<open>
  Claim C6, which the code does not meet. With the sample image loaded, a prompt typed
  and nothing painted, the mask is black at every pixel, yet \<^verbatim>\<open>handleGenerate\<close> raises
  no error, moves to \<^verbatim>\<open>GENERATING\<close> and sets up the request to the service with that
  mask: the test on the data URL passes for every mask that has pixels.
\<close>

theorem handleGenerate_unpainted:
  "(\<exists>rest. fst (getMaskAsBase64 sampleBrowser editor_400_300)
              = Inr (''data:image/png;base64,'' @ rest)
      \<and> handleGenerate sampleBrowser app_unpainted =
          (app_unpainted\<lparr>appState := GENERATING\<rparr>,
           Some \<lparr>req_original = photo_400_300,
                 req_mask = ''data:image/png;base64,'' @ rest,
                 req_prompt = prompt_red\<rparr>))
   \<and> maskPixel sampleBrowser editor_400_300 x y =
       Some (if x < 400 \<and> y < 300 then opaque_black else transparent)"
proof
  from url_unpainted obtain rest where
    url: "fst (getMaskAsBase64 sampleBrowser editor_400_300)
            = Inr (''data:image/png;base64,'' @ rest)"
    by blast
  have inc: "String_includes (''data:image/png;base64,'' @ rest) ''data:image/png;base64,''"
    by (rule String_includes_prefix)
  have st: "snd (getMaskAsBase64 sampleBrowser editor_400_300) = editor_400_300"
    by (rule getMaskAsBase64_state)
  have "handleGenerate sampleBrowser app_unpainted =
     (app_unpainted\<lparr>appState := GENERATING\<rparr>,
      Some \<lparr>req_original = photo_400_300, req_mask = ''data:image/png;base64,'' @ rest,
            req_prompt = prompt_red\<rparr>)"
    using inc st url trim_prompt_red
    by (simp add: handleGenerate_def app_unpainted_value split_beta Let_def
        del: String_includes.simps)
  with url show "\<exists>rest. fst (getMaskAsBase64 sampleBrowser editor_400_300)
              = Inr (''data:image/png;base64,'' @ rest)
      \<and> handleGenerate sampleBrowser app_unpainted =
          (app_unpainted\<lparr>appState := GENERATING\<rparr>,
           Some \<lparr>req_original = photo_400_300,
                 req_mask = ''data:image/png;base64,'' @ rest,
                 req_prompt = prompt_red\<rparr>)"
    by blast
next
  show "maskPixel sampleBrowser editor_400_300 x y =
       Some (if x < 400 \<and> y < 300 then opaque_black else transparent)"
    by (rule mask_unpainted)
qed

text \<open>
  When the export throws, as it does on a drawing canvas without pixels, the
  \<^verbatim>\<open>catch\<close> branch reports the failure and moves to \<^verbatim>\<open>ERROR\<close>.
\<close>

lemma handleGenerate_catch:
  assumes "trim (prompt a) \<noteq> []" "originalImage a = Some f" "imageEditorRef a = Some ed"
    and "drawingCanvasRef ed = Some dc" "width dc = 0 \<or> height dc = 0" "newContext2d P"
  shows "handleGenerate P a =
     (a\<lparr>appState := ERROR,
        error := Some (''Generation failed: '' @ errorMessage P InvalidStateError)\<rparr>,
      None)"
proof -
  have "fst (renderMask P dc) = Inl InvalidStateError"
    using assms(5,6) by (rule renderMask_throws)
  then have "fst (getMaskAsBase64 P ed) = Inl InvalidStateError"
    using assms(4) by (simp add: getMaskAsBase64_def split_beta Let_def)
  moreover have "snd (getMaskAsBase64 P ed) = ed" by (rule getMaskAsBase64_state)
  ultimately show ?thesis
    using assms(1-3) by (simp add: handleGenerate_def split_beta Let_def)
qed

lemma trim_blank:
  assumes "\<forall>u \<in> set str. isWhiteSpace u"
  shows "trim str = []"
proof -
  have "dropWhile isWhiteSpace str = []" using assms by simp
  then show ?thesis by (simp only: trim_def rev.simps dropWhile.simps)
qed

text \<open>
  Claim C10. When the prompt is empty or holds white space only, \<^verbatim>\<open>handleGenerate\<close>
  sets the error message and returns: no request to the service is set up, and the rest
  of the state, \<open>appState\<close> included, is as before.
\<close>

theorem handleGenerate_blank_prompt:
  assumes "\<forall>u \<in> set (prompt a). isWhiteSpace u"
  shows "handleGenerate P a =
     (a\<lparr>error := Some ''Please enter a description of the edit you want to make.''\<rparr>,
      None)"
  using assms by (simp add: handleGenerate_def trim_blank)

theorem handleGenerate_blank_prompt_witness:
  "handleGenerate sampleBrowser (app_unpainted\<lparr>prompt := prompt_blank\<rparr>) =
     (app_unpainted\<lparr>prompt := prompt_blank,
        error := Some ''Please enter a description of the edit you want to make.''\<rparr>,
      None)"
  using handleGenerate_blank_prompt [of "app_unpainted\<lparr>prompt := prompt_blank\<rparr>" sampleBrowser]
  by (simp add: prompt_blank_def isWhiteSpace_def)

section \<open>Uploading\<close>

text \<open>
  Claim C9 as stated fails: a file declared as \<^verbatim>\<open>image/png\<close> whose bytes do not decode
  is accepted. The state moves to \<^verbatim>\<open>EDITING\<close> with that file, and no error is set, also
  after the editor has been rendered.
\<close>

theorem handleImageUpload_undecodable:
  "decodeImage sampleBrowser (file_bytes broken_png) = None
   \<and> handleImageUpload (Some broken_png) App_initial
       = App_initial\<lparr>originalImage := Some broken_png, appState := EDITING, error := None\<rparr>
   \<and> error (renderContent sampleBrowser (handleImageUpload (Some broken_png) App_initial))
       = None"
  by (simp add: handleImageUpload_def broken_png_def startsWith_def sampleBrowser_def
      sampleDecode_def renderContent_def App_initial_def)

text \<open>
  Claim C9, amended. \<^verbatim>\<open>handleImageUpload\<close> rejects an upload exactly when there is no
  file or the declared type of the file does not start with \<^verbatim>\<open>image/\<close>; the bytes are not
  looked at. A rejection sets the error message at once and changes nothing else of the
  state; an upload that is not rejected clears the error.
\<close>

theorem handleImageUpload_rejects:
  "(error (handleImageUpload upload a)
      = Some ''Please upload a valid image file (PNG, JPG, etc.).'')
     = (upload = None \<or> (\<exists>f. upload = Some f \<and> \<not> startsWith (file_type f) ''image/''))
   \<and> (error (handleImageUpload upload a)
         = Some ''Please upload a valid image file (PNG, JPG, etc.).''
       \<longrightarrow> handleImageUpload upload a
           = a\<lparr>error := Some ''Please upload a valid image file (PNG, JPG, etc.).''\<rparr>)
   \<and> (error (handleImageUpload upload a)
         \<noteq> Some ''Please upload a valid image file (PNG, JPG, etc.).''
       \<longrightarrow> error (handleImageUpload upload a) = None)"
  by (cases upload) (simp_all add: handleImageUpload_def)

theorem handleImageUpload_rejects_witness:
  "handleImageUpload (Some notes_txt) app_unpainted
     = app_unpainted\<lparr>error := Some ''Please upload a valid image file (PNG, JPG, etc.).''\<rparr>
   \<and> decodeImage sampleBrowser (file_bytes notes_txt) \<noteq> None"
  using handleImageUpload_rejects [of "Some notes_txt" app_unpainted]
  by (simp add: notes_txt_def startsWith_def sampleBrowser_def sampleDecode_def)

end
